theory Spec2Isabelle
  imports Complex_Main "HOL-Library.Multiset"
begin

section \<open>Python values\<close>

text \<open>
  The module \<^verbatim>\<open>graphql_ws/protocol.py\<close> works on the values that \<^verbatim>\<open>json.loads\<close>
  produces: \<^verbatim>\<open>None\<close>, booleans, integers, floats, strings, lists and dicts with string
  keys. \<open>JNull\<close> is Python's \<^verbatim>\<open>None\<close>. A dict is the list of its items in insertion
  order; a Python dict never holds a key twice, which \<open>wf_json\<close> states. Floats are the
  finite ones, given by their exact value; the IEEE special values (NaN, the infinities)
  are outside the model.
\<close>

datatype json =
    JNull
  | JBool bool
  | JInt int
  | JFloat rat
  | JStr string
  | JList "json list"
  | JDict "(string \<times> json) list"

text \<open>Exceptions of the module, by their Python class.\<close>

datatype error =
    JSONDecodeError
  | TypeError string
  | ValueError json
  | KeyError string


text \<open>
  Python's \<^verbatim>\<open>==\<close> on these values. \<^verbatim>\<open>bool\<close> is a subclass of \<^verbatim>\<open>int\<close> and numbers
  compare by value (\<^verbatim>\<open>True == 1 == 1.0\<close>); lists compare elementwise; two dicts are equal
  when they have the same number of items and every item of the first is bound to an
  equal value in the second.
\<close>

fun num_of :: "json \<Rightarrow> rat option" where
  "num_of (JBool b) = Some (if b then 1 else 0)"
| "num_of (JInt i) = Some (of_int i)"
| "num_of (JFloat r) = Some r"
| "num_of _ = None"

fun py_eq :: "json \<Rightarrow> json \<Rightarrow> bool" where
  "py_eq JNull b = (b = JNull)"
| "py_eq (JBool x) b = (num_of b = num_of (JBool x))"
| "py_eq (JInt i) b = (num_of b = num_of (JInt i))"
| "py_eq (JFloat r) b = (num_of b = num_of (JFloat r))"
| "py_eq (JStr s) b = (b = JStr s)"
| "py_eq (JList xs) b = (case b of JList ys \<Rightarrow> list_all2 py_eq xs ys | _ \<Rightarrow> False)"
| "py_eq (JDict m) b =
     (case b of
        JDict n \<Rightarrow>
          length m = length n \<and>
          list_all (\<lambda>(k, v). case map_of n k of None \<Rightarrow> False | Some w \<Rightarrow> py_eq v w) m
      | _ \<Rightarrow> False)"

text \<open>\<^verbatim>\<open>d[key]\<close> and \<^verbatim>\<open>d.get(key)\<close> of a dict.\<close>

definition dict_getitem :: "(string \<times> json) list \<Rightarrow> string \<Rightarrow> error + json" where
  "dict_getitem d key = (case map_of d key of None \<Rightarrow> Inl (KeyError key) | Some v \<Rightarrow> Inr v)"

definition dict_get :: "(string \<times> json) list \<Rightarrow> string \<Rightarrow> json" where
  "dict_get d key = (case map_of d key of None \<Rightarrow> JNull | Some v \<Rightarrow> v)"

section \<open>GQLMsgType\<close>

datatype GQLMsgType =
    CONNECTION_INIT
  | CONNECTION_ACK
  | PING
  | PONG
  | SUBSCRIBE
  | NEXT
  | ERROR
  | COMPLETE

fun GQLMsgType_value :: "GQLMsgType \<Rightarrow> string" where
  "GQLMsgType_value CONNECTION_INIT = ''connection_init''"
| "GQLMsgType_value CONNECTION_ACK = ''connection_ack''"
| "GQLMsgType_value PING = ''ping''"
| "GQLMsgType_value PONG = ''pong''"
| "GQLMsgType_value SUBSCRIBE = ''subscribe''"
| "GQLMsgType_value NEXT = ''next''"
| "GQLMsgType_value ERROR = ''error''"
| "GQLMsgType_value COMPLETE = ''complete''"

definition GQLMsgType_members :: "GQLMsgType list" where
  "GQLMsgType_members =
     [CONNECTION_INIT, CONNECTION_ACK, PING, PONG, SUBSCRIBE, NEXT, ERROR, COMPLETE]"

text \<open>
  \<^verbatim>\<open>GQLMsgType(value)\<close>: the enum's lookup by value returns the member whose value equals
  the argument and raises \<^verbatim>\<open>ValueError\<close> (``value is not a valid GQLMsgType'') when there
  is none.
\<close>

definition GQLMsgType_call :: "json \<Rightarrow> error + GQLMsgType" where
  "GQLMsgType_call v =
     (case find (\<lambda>m. py_eq (JStr (GQLMsgType_value m)) v) GQLMsgType_members of
        Some m \<Rightarrow> Inr m
      | None \<Rightarrow> Inl (ValueError v))"

section \<open>The query-language library\<close>

text \<open>
  \<^verbatim>\<open>graphql\<close> is a library the module imports. Of a parsed document the module reads the
  list of top-level definitions, whether a definition is an \<^verbatim>\<open>OperationDefinitionNode\<close>,
  and that node's \<^verbatim>\<open>operation\<close>. The shorthand \<^verbatim>\<open>{ field }\<close> is an anonymous operation
  whose \<^verbatim>\<open>operation\<close> is \<^verbatim>\<open>OperationType.QUERY\<close>. Every other kind of definition
  (fragment, type system definition or extension) is an \<open>OtherDefinitionNode\<close>, tagged
  with its kind.
\<close>

datatype OperationType = QUERY | MUTATION | SUBSCRIPTION

datatype DefinitionNode =
    OperationDefinitionNode OperationType "string option"
  | OtherDefinitionNode string

record DocumentNode =
  definitions :: "DefinitionNode list"

text \<open>
  \<^verbatim>\<open>graphql.parse\<close> is a parameter of the model: applied to any Python value it either
  raises an exception (a value of \<open>'e\<close>, on the left) or returns a document.
\<close>

type_synonym 'e parser = "json \<Rightarrow> 'e + DocumentNode"

text \<open>
  \<^verbatim>\<open>graphql.Source(body)\<close> stores its argument as it is, under the default name
  \<^verbatim>\<open>"GraphQL request"\<close>.
\<close>

record Source =
  body :: json
  name :: string

definition graphql_Source :: "json \<Rightarrow> Source" where
  "graphql_Source b = \<lparr>body = b, name = ''GraphQL request''\<rparr>"

section \<open>OperationMessagePayload\<close>

text \<open>The one slot of the class, \<^verbatim>\<open>_payload\<close>, is the field \<open>payload_slot\<close>.\<close>

record OperationMessagePayload =
  payload_slot :: "(string \<times> json) list"

fun isinstance_dict :: "json \<Rightarrow> bool" where
  "isinstance_dict (JDict d) = True"
| "isinstance_dict _ = False"

text \<open>
  \<^verbatim>\<open>__init__\<close>: anything but \<^verbatim>\<open>None\<close> and a dict raises \<^verbatim>\<open>TypeError\<close>; then
  \<^verbatim>\<open>payload or {}\<close> keeps a non-empty dict and replaces \<^verbatim>\<open>None\<close> and the empty dict by
  a new empty dict.
\<close>

definition OperationMessagePayload_init :: "json \<Rightarrow> error + OperationMessagePayload" where
  "OperationMessagePayload_init payload =
     (if payload \<noteq> JNull \<and> \<not> isinstance_dict payload
      then Inl (TypeError ''Payload must be an object'')
      else Inr \<lparr>payload_slot = (case payload of JDict d \<Rightarrow> (if d \<noteq> [] then d else []) | _ \<Rightarrow> [])\<rparr>)"

definition getitem :: "OperationMessagePayload \<Rightarrow> string \<Rightarrow> error + json" where
  "getitem self key = dict_getitem (payload_slot self) key"

definition iter :: "OperationMessagePayload \<Rightarrow> string list" where
  "iter self = map fst (payload_slot self)"

definition len :: "OperationMessagePayload \<Rightarrow> nat" where
  "len self = length (payload_slot self)"

text \<open>
  The methods the class inherits from \<^verbatim>\<open>collections.abc.Mapping\<close>, which builds them on
  \<^verbatim>\<open>__getitem__\<close>: \<^verbatim>\<open>get\<close> (default \<^verbatim>\<open>None\<close>) and \<^verbatim>\<open>__contains__\<close> catch its
  \<^verbatim>\<open>KeyError\<close>; \<^verbatim>\<open>items\<close> pairs every key that \<^verbatim>\<open>__iter__\<close> yields with
  \<^verbatim>\<open>self[key]\<close>, which cannot raise for such a key; \<^verbatim>\<open>__eq__\<close> compares
  \<^verbatim>\<open>dict(self.items())\<close> with \<^verbatim>\<open>dict(other.items())\<close>, and the dict of the items of a
  dict is that dict again (\<open>items_slot\<close> below). Inside \<^verbatim>\<open>OperationMessage.__eq__\<close> both
  operands are payloads.
\<close>

definition get :: "OperationMessagePayload \<Rightarrow> string \<Rightarrow> json" where
  "get self key = (case getitem self key of Inl e \<Rightarrow> JNull | Inr v \<Rightarrow> v)"

definition contains :: "OperationMessagePayload \<Rightarrow> string \<Rightarrow> bool" where
  "contains self key = (case getitem self key of Inl e \<Rightarrow> False | Inr v \<Rightarrow> True)"

definition items :: "OperationMessagePayload \<Rightarrow> (string \<times> json) list" where
  "items self = map (\<lambda>key. (key, get self key)) (iter self)"

definition Mapping_eq :: "OperationMessagePayload \<Rightarrow> OperationMessagePayload \<Rightarrow> bool" where
  "Mapping_eq self other = py_eq (JDict (items self)) (JDict (items other))"

definition query :: "OperationMessagePayload \<Rightarrow> json" where
  "query self = get self ''query''"

definition variable_values :: "OperationMessagePayload \<Rightarrow> json" where
  "variable_values self = get self ''variables''"

definition operation_name :: "OperationMessagePayload \<Rightarrow> json" where
  "operation_name self = get self ''operationName''"

text \<open>
  \<^verbatim>\<open>document\<close> calls the parser and turns every exception it raises (\<^verbatim>\<open>except Exception\<close>)
  into \<^verbatim>\<open>None\<close>. The call is the one effect of the property: \<open>calls\<close> is the list of
  arguments \<^verbatim>\<open>graphql.parse\<close> has been called with so far, and the property returns it
  extended.
\<close>

definition document ::
  "'e parser \<Rightarrow> OperationMessagePayload \<Rightarrow> json list \<Rightarrow> DocumentNode option \<times> json list" where
  "document parse self calls =
     (case parse (query self) of
        Inr d \<Rightarrow> (Some d, calls @ [query self])
      | Inl e \<Rightarrow> (None, calls @ [query self]))"

definition source :: "OperationMessagePayload \<Rightarrow> Source" where
  "source self = graphql_Source (query self)"

fun is_subscription :: "DefinitionNode \<Rightarrow> bool" where
  "is_subscription (OperationDefinitionNode operation nm) = (operation = SUBSCRIPTION)"
| "is_subscription (OtherDefinitionNode kind) = False"

definition has_subscription_operation ::
  "'e parser \<Rightarrow> OperationMessagePayload \<Rightarrow> json list \<Rightarrow> bool \<times> json list" where
  "has_subscription_operation parse self calls =
     (case document parse self calls of
        (Some d, calls') \<Rightarrow> (list_ex (\<lambda>b. b) (map is_subscription (definitions d)), calls')
      | (None, calls') \<Rightarrow> (False, calls'))"

section \<open>OperationMessage\<close>

text \<open>
  The slots \<^verbatim>\<open>_type\<close>, \<^verbatim>\<open>_id\<close> and \<^verbatim>\<open>_payload\<close>; the properties \<^verbatim>\<open>type\<close>, \<^verbatim>\<open>id\<close> and
  \<^verbatim>\<open>payload\<close> return them as they are.
\<close>

record OperationMessage =
  msg_type :: GQLMsgType
  msg_id :: json
  msg_payload :: OperationMessagePayload

text \<open>
  \<^verbatim>\<open>__init__\<close> converts the type first, so its \<^verbatim>\<open>ValueError\<close> wins over the payload's
  \<^verbatim>\<open>TypeError\<close>.
\<close>

definition OperationMessage_init :: "json \<Rightarrow> json \<Rightarrow> json \<Rightarrow> error + OperationMessage" where
  "OperationMessage_init type' id' payload =
     (case GQLMsgType_call type' of
        Inl e \<Rightarrow> Inl e
      | Inr t \<Rightarrow>
          (case OperationMessagePayload_init payload of
             Inl e \<Rightarrow> Inl e
           | Inr p \<Rightarrow> Inr \<lparr>msg_type = t, msg_id = id', msg_payload = p\<rparr>))"


definition load :: "json \<Rightarrow> error + OperationMessage" where
  "load data =
     (case data of
        JDict d \<Rightarrow> OperationMessage_init (dict_get d ''type'') (dict_get d ''id'') (dict_get d ''payload'')
      | _ \<Rightarrow> Inl (TypeError ''Message must be an object''))"



section \<open>Sample collaborators\<close>

text \<open>
  The examples below need a parser and a decoder to run on. \<open>sample_parse\<close> knows two
  query strings and rejects every other string with a syntax error and every value that
  is not a string with a type error; \<open>sample_json_loads\<close> decodes five texts and rejects
  every other one.
\<close>

datatype parse_error = GraphQLSyntaxError | ParseTypeError

definition sample_parse :: "parse_error parser" where
  "sample_parse v =
     (case v of
        JStr s \<Rightarrow>
          (if s = ''subscription { onThing }''
           then Inr \<lparr>definitions = [OperationDefinitionNode SUBSCRIPTION None]\<rparr>
           else if s = ''{ __typename }''
           then Inr \<lparr>definitions = [OperationDefinitionNode QUERY None]\<rparr>
           else Inl GraphQLSyntaxError)
      | _ \<Rightarrow> Inl ParseTypeError)"


section \<open>Properties of the values\<close>



lemma get_map_of: "get p k = (case map_of (payload_slot p) k of None \<Rightarrow> JNull | Some v \<Rightarrow> v)"
  by (simp add: get_def getitem_def dict_getitem_def split: option.splits)








lemma GQLMsgType_call_value: "GQLMsgType_call (JStr (GQLMsgType_value m)) = Inr m"
  by (cases m) (simp_all add: GQLMsgType_call_def GQLMsgType_members_def)

lemma GQLMsgType_call_Inr: "GQLMsgType_call v = Inr m \<Longrightarrow> v = JStr (GQLMsgType_value m)"
  by (auto simp: GQLMsgType_call_def find_Some_iff split: option.splits)

lemma GQLMsgType_call_cases:
  "GQLMsgType_call v = Inl (ValueError v) \<or> (\<exists>m. GQLMsgType_call v = Inr m)"
  by (auto simp: GQLMsgType_call_def split: option.splits)

lemma GQLMsgType_value_canonical:
  "GQLMsgType_value m \<in> set [''connection_init'', ''connection_ack'', ''ping'', ''pong'',
       ''subscribe'', ''next'', ''error'', ''complete'']"
  by (cases m) simp_all

lemma GQLMsgType_call_other:
  assumes "\<forall>m. v \<noteq> JStr (GQLMsgType_value m)"
  shows "GQLMsgType_call v = Inl (ValueError v)"
  using GQLMsgType_call_cases [of v] GQLMsgType_call_Inr [of v] assms by blast



lemma is_subscription_iff:
  "is_subscription x = (\<exists>nm. x = OperationDefinitionNode SUBSCRIPTION nm)"
  by (cases x) auto


section \<open>Claims about OperationMessagePayload\<close>

text \<open>
  C4. Constructing a payload succeeds exactly for \<^verbatim>\<open>None\<close> and for a dict. \<^verbatim>\<open>None\<close>
  becomes the empty mapping, a dict is kept as it is, and every other value (a list, a
  string, a number, a boolean) raises the \<^verbatim>\<open>TypeError\<close> ``Payload must be an object''.
  The payloads built from \<^verbatim>\<open>None\<close> and from the empty dict are equal and have length 0.
\<close>

theorem payload_init_shape:
  "(case v of
      JNull \<Rightarrow> OperationMessagePayload_init v = Inr \<lparr>payload_slot = []\<rparr>
    | JDict d \<Rightarrow> OperationMessagePayload_init v = Inr \<lparr>payload_slot = d\<rparr>
    | _ \<Rightarrow> OperationMessagePayload_init v = Inl (TypeError ''Payload must be an object''))
   \<and> ((\<exists>p. OperationMessagePayload_init v = Inr p) = (v = JNull \<or> isinstance_dict v))
   \<and> (\<exists>p q. OperationMessagePayload_init JNull = Inr p
          \<and> OperationMessagePayload_init (JDict []) = Inr q
          \<and> Mapping_eq p q \<and> Mapping_eq q p \<and> len p = 0 \<and> len q = 0)"
  by (cases v)
    (auto simp: OperationMessagePayload_init_def Mapping_eq_def items_def iter_def len_def)

theorem payload_init_shape_examples:
  "OperationMessagePayload_init (JList [JInt 1, JInt 2, JInt 3])
     = Inl (TypeError ''Payload must be an object'')
   \<and> OperationMessagePayload_init (JStr ''x'') = Inl (TypeError ''Payload must be an object'')
   \<and> OperationMessagePayload_init (JBool False) = Inl (TypeError ''Payload must be an object'')
   \<and> OperationMessagePayload_init (JInt 0) = Inl (TypeError ''Payload must be an object'')
   \<and> OperationMessagePayload_init (JDict [(''a'', JInt 1)])
     = Inr \<lparr>payload_slot = [(''a'', JInt 1)]\<rparr>"
  using payload_init_shape [of "JList [JInt 1, JInt 2, JInt 3]"]
    payload_init_shape [of "JStr ''x''"] payload_init_shape [of "JBool False"]
    payload_init_shape [of "JInt 0"] payload_init_shape [of "JDict [(''a'', JInt 1)]"]
  by simp

text \<open>
  C8. For the payload \<open>p\<close> built from the mapping \<open>m\<close>: \<open>get p k\<close> is the value \<open>m\<close> binds
  to \<open>k\<close>, and \<^verbatim>\<open>None\<close> when \<open>m\<close> has no such key; the length of \<open>p\<close> is the number of
  items of \<open>m\<close>; \<open>k\<close> is in \<open>p\<close> exactly when it is a key of \<open>m\<close>; iterating over \<open>p\<close>
  yields the keys of \<open>m\<close> in their insertion order.
\<close>

theorem payload_read_access:
  "\<exists>p. OperationMessagePayload_init (JDict m) = Inr p
     \<and> get p k = (case map_of m k of Some v \<Rightarrow> v | None \<Rightarrow> JNull)
     \<and> len p = length m
     \<and> contains p k = (k \<in> set (map fst m))
     \<and> iter p = map fst m"
  by (auto simp: OperationMessagePayload_init_def get_def getitem_def dict_getitem_def len_def
      contains_def iter_def map_of_eq_None_iff
      split: option.splits intro: rev_image_eqI dest: map_of_SomeD)

theorem payload_read_access_example:
  "get \<lparr>payload_slot = [(''a'', JInt 1)]\<rparr> ''a'' = JInt 1
   \<and> get \<lparr>payload_slot = [(''a'', JInt 1)]\<rparr> ''missing'' = JNull
   \<and> iter \<lparr>payload_slot = [(''b'', JInt 2), (''a'', JInt 1)]\<rparr> = [''b'', ''a'']"
  using payload_read_access [of "[(''a'', JInt 1)]" "''a''"]
    payload_read_access [of "[(''a'', JInt 1)]" "''missing''"]
    payload_read_access [of "[(''b'', JInt 2), (''a'', JInt 1)]" "''a''"]
  by (simp add: OperationMessagePayload_init_def)

text \<open>
  C10. Indexing a payload with a key it does not hold raises \<^verbatim>\<open>KeyError\<close>, and it raises
  it for no other key; \<open>get\<close> returns \<^verbatim>\<open>None\<close> there. For a key the payload holds, both
  return the value bound to it.
\<close>

theorem getitem_missing_key:
  "(getitem p k = Inl (KeyError k)) = (k \<notin> set (iter p))
   \<and> (if k \<in> set (iter p)
       then \<exists>v. (k, v) \<in> set (payload_slot p) \<and> getitem p k = Inr v \<and> get p k = v
       else getitem p k = Inl (KeyError k) \<and> get p k = JNull)"
  by (auto simp: get_def getitem_def dict_getitem_def iter_def map_of_eq_None_iff
      split: option.splits intro: rev_image_eqI dest: map_of_SomeD)

theorem getitem_missing_key_example:
  "getitem \<lparr>payload_slot = [(''a'', JInt 1)]\<rparr> ''missing'' = Inl (KeyError ''missing'')
   \<and> get \<lparr>payload_slot = [(''a'', JInt 1)]\<rparr> ''missing'' = JNull
   \<and> getitem \<lparr>payload_slot = [(''a'', JInt 1)]\<rparr> ''a'' = Inr (JInt 1)"
  using getitem_missing_key [of "\<lparr>payload_slot = [(''a'', JInt 1)]\<rparr>" "''missing''"]
    getitem_missing_key [of "\<lparr>payload_slot = [(''a'', JInt 1)]\<rparr>" "''a''"]
  by (simp add: iter_def)

text \<open>
  C9. \<open>source\<close> wraps the value of \<open>query\<close>, which is \<^verbatim>\<open>None\<close> when the payload has no
  \<^verbatim>\<open>"query"\<close> key, under the label ``GraphQL request''. It takes no parser and has no
  error result: it parses nothing and raises nothing, whatever the query value is.
\<close>

theorem source_wraps_query:
  "source p = \<lparr>body = (case map_of (payload_slot p) ''query'' of None \<Rightarrow> JNull | Some v \<Rightarrow> v),
               name = ''GraphQL request''\<rparr>
   \<and> body (source p) = query p
   \<and> (''query'' \<notin> set (iter p) \<longrightarrow> body (source p) = JNull)"
  by (auto simp: source_def graphql_Source_def query_def get_map_of iter_def map_of_eq_None_iff
      split: option.splits intro: rev_image_eqI dest: map_of_SomeD)

theorem source_wraps_query_examples:
  "source \<lparr>payload_slot = []\<rparr> = \<lparr>body = JNull, name = ''GraphQL request''\<rparr>
   \<and> source \<lparr>payload_slot = [(''query'', JStr ''not valid {{'')]\<rparr>
       = \<lparr>body = JStr ''not valid {{'', name = ''GraphQL request''\<rparr>
   \<and> source \<lparr>payload_slot = [(''query'', JInt 5)]\<rparr> = \<lparr>body = JInt 5, name = ''GraphQL request''\<rparr>"
  using source_wraps_query [of "\<lparr>payload_slot = []\<rparr>"]
    source_wraps_query [of "\<lparr>payload_slot = [(''query'', JStr ''not valid {{'')]\<rparr>"]
    source_wraps_query [of "\<lparr>payload_slot = [(''query'', JInt 5)]\<rparr>"]
  by (simp add: iter_def)



text \<open>
  C1. \<open>has_subscription_operation\<close> holds exactly when \<open>document\<close> returns a document and
  one of its top-level definitions is an operation definition whose operation is
  \<^verbatim>\<open>SUBSCRIPTION\<close>. It is false when there is no document, and false when every operation
  definition of the document is a query or a mutation (which includes the anonymous
  shorthand, a query, and a document without operation definitions). It calls the parser
  once.
\<close>

theorem has_subscription_operation_iff:
  "fst (has_subscription_operation parse p calls) =
     (\<exists>d. fst (document parse p calls) = Some d
        \<and> (\<exists>nm. OperationDefinitionNode SUBSCRIPTION nm \<in> set (definitions d)))
   \<and> (fst (document parse p calls) = None
        \<longrightarrow> \<not> fst (has_subscription_operation parse p calls))
   \<and> (\<forall>d. fst (document parse p calls) = Some d
          \<and> list_all (\<lambda>x. case x of
                 OperationDefinitionNode operation nm \<Rightarrow> operation = QUERY \<or> operation = MUTATION
               | OtherDefinitionNode kind \<Rightarrow> True) (definitions d)
        \<longrightarrow> \<not> fst (has_subscription_operation parse p calls))
   \<and> snd (has_subscription_operation parse p calls) = calls @ [query p]"
proof -
  have ex: "list_ex (\<lambda>b. b) (map is_subscription ds)
      = (\<exists>nm. OperationDefinitionNode SUBSCRIPTION nm \<in> set ds)" for ds
    by (auto simp: list_ex_iff is_subscription_iff)
  have no: "\<not> (\<exists>nm. OperationDefinitionNode SUBSCRIPTION nm \<in> set ds)"
    if "list_all (\<lambda>x. case x of
                 OperationDefinitionNode operation nm \<Rightarrow> operation = QUERY \<or> operation = MUTATION
               | OtherDefinitionNode kind \<Rightarrow> True) ds" for ds
    using that by (auto simp: list_all_iff split: DefinitionNode.splits)
  have one: "fst (has_subscription_operation parse p calls) =
     (\<exists>d. fst (document parse p calls) = Some d
        \<and> (\<exists>nm. OperationDefinitionNode SUBSCRIPTION nm \<in> set (definitions d)))"
    by (simp add: has_subscription_operation_def ex split: prod.splits option.splits)
  have four: "snd (has_subscription_operation parse p calls) = calls @ [query p]"
    by (simp add: has_subscription_operation_def document_def
        split: prod.splits option.splits sum.splits)
  from one no four show ?thesis by (simp only:) auto
qed

theorem has_subscription_operation_examples:
  "fst (has_subscription_operation sample_parse
          \<lparr>payload_slot = [(''query'', JStr ''{ __typename }'')]\<rparr> []) = False
   \<and> fst (has_subscription_operation sample_parse
          \<lparr>payload_slot = [(''query'', JStr ''subscription { onThing }'')]\<rparr> []) = True
   \<and> fst (has_subscription_operation sample_parse
          \<lparr>payload_slot = [(''query'', JStr ''not valid {{'')]\<rparr> []) = False
   \<and> fst (has_subscription_operation sample_parse \<lparr>payload_slot = []\<rparr> []) = False"
  using has_subscription_operation_iff
      [of sample_parse "\<lparr>payload_slot = [(''query'', JStr ''{ __typename }'')]\<rparr>" "[]"]
    has_subscription_operation_iff
      [of sample_parse "\<lparr>payload_slot = [(''query'', JStr ''subscription { onThing }'')]\<rparr>" "[]"]
    has_subscription_operation_iff
      [of sample_parse "\<lparr>payload_slot = [(''query'', JStr ''not valid {{'')]\<rparr>" "[]"]
    has_subscription_operation_iff [of sample_parse "\<lparr>payload_slot = []\<rparr>" "[]"]
  by (simp add: document_def query_def get_map_of sample_parse_def)

section \<open>Claims about GQLMsgType and OperationMessage\<close>

text \<open>
  C3. Each of the eight canonical strings converts to a member whose value is that string
  again, and each member's value converts back to the member. Every other string raises
  \<^verbatim>\<open>ValueError\<close>, and so does an envelope without a \<^verbatim>\<open>"type"\<close> key, whose type is read
  as \<^verbatim>\<open>None\<close>.
\<close>

theorem GQLMsgType_from_string:
  "list_all (\<lambda>s. \<exists>m. GQLMsgType_call (JStr s) = Inr m \<and> GQLMsgType_value m = s)
     [''connection_init'', ''connection_ack'', ''ping'', ''pong'',
      ''subscribe'', ''next'', ''error'', ''complete'']
   \<and> GQLMsgType_call (JStr (GQLMsgType_value m)) = Inr m
   \<and> (s \<notin> set [''connection_init'', ''connection_ack'', ''ping'', ''pong'',
                 ''subscribe'', ''next'', ''error'', ''complete'']
        \<longrightarrow> GQLMsgType_call (JStr s) = Inl (ValueError (JStr s)))
   \<and> (map_of d ''type'' = None \<longrightarrow> load (JDict d) = Inl (ValueError JNull))"
proof -
  have a: "list_all (\<lambda>s. \<exists>m. GQLMsgType_call (JStr s) = Inr m \<and> GQLMsgType_value m = s)
     [''connection_init'', ''connection_ack'', ''ping'', ''pong'',
      ''subscribe'', ''next'', ''error'', ''complete'']"
    by (simp add: GQLMsgType_call_def GQLMsgType_members_def)
  have b: "GQLMsgType_call (JStr s) = Inl (ValueError (JStr s))"
    if "s \<notin> set [''connection_init'', ''connection_ack'', ''ping'', ''pong'',
                 ''subscribe'', ''next'', ''error'', ''complete'']"
  proof (rule GQLMsgType_call_other, rule allI, rule notI)
    fix m assume "JStr s = JStr (GQLMsgType_value m)"
    then have "s = GQLMsgType_value m" by simp
    with GQLMsgType_value_canonical [of m] that show False by simp
  qed
  have c: "load (JDict d) = Inl (ValueError JNull)" if "map_of d ''type'' = None"
    using that by (simp add: load_def OperationMessage_init_def dict_get_def
        GQLMsgType_call_def GQLMsgType_members_def)
  from a b c show ?thesis by (simp only: GQLMsgType_call_value) blast
qed

theorem GQLMsgType_from_string_examples:
  "GQLMsgType_call (JStr ''nope'') = Inl (ValueError (JStr ''nope''))
   \<and> load (JDict [(''id'', JStr ''1'')]) = Inl (ValueError JNull)
   \<and> GQLMsgType_call (JStr ''ping'') = Inr PING"
  using GQLMsgType_from_string [of PING "''nope''" "[(''id'', JStr ''1'')]"]
  by simp







end
